theory Spec2Isabelle
  imports Main "HOL-Library.Word"
begin

section \<open>The multisig account of x/accounts/defaults/multisig/account.go\<close>

subsection \<open>Data model\<close>

type_synonym bytes = "8 word list"
type_synonym uint64 = "64 word"

text \<open>
  The persistent collections of the account, one per prefix of account.go
  (\<open>MembersPrefix\<close> .. \<open>VotesPrefix\<close>).
\<close>

datatype collection = MembersColl | SequenceColl | ConfigColl | ProposalsColl | VotesColl

text \<open>
  The source builds its errors with \<open>errors.New\<close> and \<open>fmt.Errorf\<close>; each constructor
  stands for one of them:
  \<^item> \<open>InvalidInput\<close>: "the number of public keys and weights must be equal";
  \<^item> \<open>UnsupportedAlgorithm algo supported\<close>: "unsupported signing algo: %s, must be one of: %v";
  \<^item> \<open>InvalidConfig\<close>: "threshold, quorum and voting period must be greater than zero";
  \<^item> \<open>ThresholdExceedsWeight\<close>: "threshold must be less than or equal to the total weight";
  \<^item> \<open>QuorumExceedsWeight\<close>: "quorum must be less than or equal to the total weight";
  \<^item> \<open>AlreadyVoted\<close>: "voter has already voted, can't change its vote per config";
  \<^item> \<open>ErrNotFound c\<close>: \<open>collections.ErrNotFound\<close>, as returned by a \<open>Get\<close> on collection \<open>c\<close>
    (the member lookup of Vote gives \<open>ErrNotFound MembersColl\<close>, which the specification
    calls NotAMember; the proposal lookup gives \<open>ErrNotFound ProposalsColl\<close>, which the
    specification calls ProposalNotFound);
  \<^item> \<open>Foreign s\<close>: an error of the address codec or of a custom signature handler,
    handed on unchanged.
\<close>

datatype error =
    InvalidInput
  | UnsupportedAlgorithm string "string list"
  | InvalidConfig
  | ThresholdExceedsWeight
  | QuorumExceedsWeight
  | AlreadyVoted
  | ErrNotFound collection
  | Foreign string

text \<open>
  What a call does: it returns a response with a nil error, returns an error, or
  panics (a nil dereference aborts the call instead of returning).
\<close>

datatype 'a outcome = Ok 'a | Failed error | Panicked

text \<open>
  \<open>v1.Config\<close>. Its declaration is generated code outside account.go; the fields are
  the ones account.go reads. \<open>Threshold\<close>, \<open>Quorum\<close> and \<open>VotingPeriod\<close> are 64-bit
  integers that validateConfig compares with 0 and converts with \<open>uint64(...)\<close>, which
  keeps the bits: a 64-bit word read as unsigned is the converted value.
\<close>

record v1_Config =
  Threshold :: uint64
  Quorum :: uint64
  VotingPeriod :: uint64
  Algo :: string
  Revote :: bool

text \<open>
  Modelled from the spec: \<open>v1.Proposal\<close>, whose declaration is outside account.go, is
  the Proposal of the data model: id, opaque payload, creation time and a status among
  Active, Passed, Rejected and Expired.
\<close>

datatype ProposalStatus = Active | Passed | Rejected | Expired

record v1_Proposal =
  Id :: uint64
  Payload :: bytes
  CreatedAt :: uint64
  Status :: ProposalStatus

text \<open>\<open>v1.MsgInit\<close>; \<open>Config\<close> is a pointer field, \<open>None\<close> is the nil pointer.\<close>

record v1_MsgInit =
  PubKeys :: "bytes list"
  Weights :: "uint64 list"
  MsgConfig :: "v1_Config option"

record v1_MsgVote =
  Signer :: string
  ProposalId :: uint64
  VoteVal :: bool
  Signature :: bytes

datatype v1_MsgInitResponse = MsgInitResponse
datatype v1_MsgVoteResponse = MsgVoteResponse
datatype aa_MsgAuthenticateResponse = MsgAuthenticateResponse

text \<open>
  The state behind \<open>ctx\<close>: the five collections of the \<open>Account\<close> struct. A
  \<open>collections.Map\<close> is a partial map, a \<open>collections.Item\<close> an optional value.
\<close>

record Store =
  Members :: "bytes \<rightharpoonup> uint64"
  Sequence :: "uint64 option"
  Config :: "v1_Config option"
  Proposals :: "uint64 \<rightharpoonup> v1_Proposal"
  Votes :: "(uint64 \<times> bytes) \<rightharpoonup> bool"

text \<open>
  Modelled from the spec: \<open>SignatureHandler\<close>, declared outside account.go, is the
  interface with the one capability \<open>RecoverPubKey(signatureBytes) -> identityBytes | error\<close>.
\<close>

type_synonym SignatureHandler = "bytes \<Rightarrow> error + bytes"

text \<open>
  The fields of the \<open>Account\<close> struct that are not collections: the address codec
  (its \<open>StringToBytes\<close>) and the Go map \<open>customAlgos\<close>, as an association list in the
  order in which \<open>range\<close> visits it.
\<close>

record Account =
  addrCodec :: "string \<Rightarrow> error + bytes"
  customAlgos :: "(string \<times> SignatureHandler) list"

definition DefaultSigningAlgo :: string where
  "DefaultSigningAlgo = ''default''"

subsection \<open>The store's operations\<close>

text \<open>
  Modelled from the spec: the keyed store's \<open>get(namespace, key) -> value | NotFound\<close>
  and \<open>set(namespace, key, value)\<close>. A \<open>Get\<close> of an absent key returns
  \<open>collections.ErrNotFound\<close>; a \<open>Set\<close> always succeeds.
\<close>

definition Map_Get :: "collection \<Rightarrow> ('k \<rightharpoonup> 'v) \<Rightarrow> 'k \<Rightarrow> error + 'v" where
  "Map_Get c m k = (case m k of None \<Rightarrow> Inl (ErrNotFound c) | Some v \<Rightarrow> Inr v)"

definition Item_Get :: "collection \<Rightarrow> 'v option \<Rightarrow> error + 'v" where
  "Item_Get c i = (case i of None \<Rightarrow> Inl (ErrNotFound c) | Some v \<Rightarrow> Inr v)"

definition Map_Set :: "('k \<rightharpoonup> 'v) \<Rightarrow> 'k \<Rightarrow> 'v \<Rightarrow> ('k \<rightharpoonup> 'v)" where
  "Map_Set m k v = m(k \<mapsto> v)"

text \<open>\<open>errors.Is(err, collections.ErrNotFound)\<close>\<close>

fun is_ErrNotFound :: "error \<Rightarrow> bool" where
  "is_ErrNotFound (ErrNotFound c) = True"
| "is_ErrNotFound e = False"

subsection \<open>validateConfig\<close>

text \<open>The returned Go \<open>error\<close>: \<open>None\<close> is nil.\<close>

definition validateConfig :: "v1_Config \<Rightarrow> uint64 \<Rightarrow> error option" where
  "validateConfig cfg totalWeight =
     (if Threshold cfg = 0 \<or> Quorum cfg = 0 \<or> VotingPeriod cfg = 0 then Some InvalidConfig
      else if totalWeight < Threshold cfg then Some ThresholdExceedsWeight
      else if totalWeight < Quorum cfg then Some QuorumExceedsWeight
      else None)"

subsection \<open>Init\<close>

text \<open>
  The loop of lines 79-85 over the keys of \<open>customAlgos\<close>: it stops at the first key
  equal to the algorithm and appends every other key it passes to \<open>allSupportedAlgos\<close>.
\<close>

fun search_customAlgos :: "string \<Rightarrow> string list \<Rightarrow> string list \<Rightarrow> bool \<times> string list" where
  "search_customAlgos algo [] allSupportedAlgos = (False, allSupportedAlgos)"
| "search_customAlgos algo (i # rest) allSupportedAlgos =
     (if algo = i then (True, allSupportedAlgos)
      else search_customAlgos algo rest (allSupportedAlgos @ [i]))"

text \<open>
  The loop of lines 93-97: \<open>Members.Set(PubKeys[i], Weights[i])\<close> for every index of
  \<open>PubKeys\<close>. Init runs it only on lists of equal length.
\<close>

fun set_participants :: "(bytes \<rightharpoonup> uint64) \<Rightarrow> bytes list \<Rightarrow> uint64 list \<Rightarrow> (bytes \<rightharpoonup> uint64)" where
  "set_participants m (k # ks) (w # ws) = set_participants (Map_Set m k w) ks ws"
| "set_participants m ks ws = m"

text \<open>The loop of lines 99-102: \<open>totalWeight += weight\<close> on \<open>uint64\<close>, from 0.\<close>

fun sum_weights :: "uint64 \<Rightarrow> uint64 list \<Rightarrow> uint64" where
  "sum_weights totalWeight [] = totalWeight"
| "sum_weights totalWeight (weight # rest) = sum_weights (totalWeight + weight) rest"

definition Init :: "Account \<Rightarrow> Store \<Rightarrow> v1_MsgInit \<Rightarrow> v1_MsgInitResponse outcome \<times> Store" where
  "Init a ctx msg =
     (if length (PubKeys msg) \<noteq> length (Weights msg) then (Failed InvalidInput, ctx)
      else case MsgConfig msg of
        None \<Rightarrow> (Panicked, ctx)
      | Some cfg \<Rightarrow>
          (case (if Algo cfg = DefaultSigningAlgo then (True, [DefaultSigningAlgo])
                 else search_customAlgos (Algo cfg) (map fst (customAlgos a)) [DefaultSigningAlgo]) of
             (isValidAlgo, allSupportedAlgos) \<Rightarrow>
               if \<not> isValidAlgo then (Failed (UnsupportedAlgorithm (Algo cfg) allSupportedAlgos), ctx)
               else
                 (let ctx' = ctx\<lparr>Members := set_participants (Members ctx) (PubKeys msg) (Weights msg)\<rparr>;
                      totalWeight = sum_weights 0 (Weights msg)
                  in case validateConfig cfg totalWeight of
                       Some err \<Rightarrow> (Failed err, ctx')
                     | None \<Rightarrow> (Ok MsgInitResponse, ctx'))))"

subsection \<open>Vote\<close>

text \<open>
  Lines 117-129: the voter is the signer, decoded by the address codec, under the
  default algorithm, and what the handler stored in \<open>customAlgos\<close> under the algorithm
  recovers from the signature otherwise. Indexing the Go map at an absent key gives the
  zero value of the interface type, nil, and the method call on it panics.
\<close>

definition voter_identity :: "Account \<Rightarrow> v1_Config \<Rightarrow> v1_MsgVote \<Rightarrow> bytes outcome" where
  "voter_identity a cfg msg =
     (if Algo cfg = DefaultSigningAlgo then
        (case addrCodec a (Signer msg) of Inl err \<Rightarrow> Failed err | Inr voterBz \<Rightarrow> Ok voterBz)
      else
        (case map_of (customAlgos a) (Algo cfg) of
           None \<Rightarrow> Panicked
         | Some handler \<Rightarrow>
             (case handler (Signature msg) of Inl err \<Rightarrow> Failed err | Inr voterBz \<Rightarrow> Ok voterBz)))"

definition Vote :: "Account \<Rightarrow> Store \<Rightarrow> v1_MsgVote \<Rightarrow> v1_MsgVoteResponse outcome \<times> Store" where
  "Vote a ctx msg =
     (case Item_Get ConfigColl (Config ctx) of
        Inl err \<Rightarrow> (Failed err, ctx)
      | Inr cfg \<Rightarrow>
          (case voter_identity a cfg msg of
             Panicked \<Rightarrow> (Panicked, ctx)
           | Failed err \<Rightarrow> (Failed err, ctx)
           | Ok voterBz \<Rightarrow>
               (case Map_Get MembersColl (Members ctx) voterBz of
                  Inl err \<Rightarrow> (Failed err, ctx)
                | Inr weight \<Rightarrow>
                    (case Map_Get ProposalsColl (Proposals ctx) (ProposalId msg) of
                       Inl err \<Rightarrow> (Failed err, ctx)
                     | Inr proposal \<Rightarrow>
                         (case Map_Get VotesColl (Votes ctx) (ProposalId msg, voterBz) of
                            Inr old \<Rightarrow>
                              if \<not> Revote cfg then (Failed AlreadyVoted, ctx)
                              else (Ok MsgVoteResponse,
                                    ctx\<lparr>Votes := Map_Set (Votes ctx) (ProposalId msg, voterBz) (VoteVal msg)\<rparr>)
                          | Inl err \<Rightarrow>
                              if \<not> is_ErrNotFound err then (Failed err, ctx)
                              else (Ok MsgVoteResponse,
                                    ctx\<lparr>Votes := Map_Set (Votes ctx) (ProposalId msg, voterBz) (VoteVal msg)\<rparr>))))))"

subsection \<open>Authenticate\<close>

definition Authenticate :: "Account \<Rightarrow> Store \<Rightarrow> 'm \<Rightarrow> aa_MsgAuthenticateResponse outcome \<times> Store" where
  "Authenticate a ctx msg = (Ok MsgAuthenticateResponse, ctx)"

subsection \<open>The host's transaction\<close>

text \<open>
  Modelled from the spec: the keyed transactional store of the surrounding framework,
  which is not part of account.go. It "guarantees all writes within one external call
  are committed atomically or not at all", and an operation has "no partial-failure
  mid-operation (either the whole operation's writes commit or none do)". A handler runs
  on the committed store; when it returns a response its writes are committed, and when
  it returns an error or panics none of them is, so the committed store stays as it was.
\<close>

definition host_call ::
  "(Store \<Rightarrow> 'm \<Rightarrow> 'r outcome \<times> Store) \<Rightarrow> Store \<Rightarrow> 'm \<Rightarrow> 'r outcome \<times> Store" where
  "host_call handler committed msg =
     (case handler committed msg of
        (Ok resp, ctx') \<Rightarrow> (Ok resp, ctx')
      | (Failed err, ctx') \<Rightarrow> (Failed err, committed)
      | (Panicked, ctx') \<Rightarrow> (Panicked, committed))"

subsection \<open>Concrete accounts, stores and messages\<close>

text \<open>
  An account with no custom algorithm, whose address codec knows three signers; a store
  with two members of weight 1 and proposal 7; messages built from their fields.
\<close>

definition example_codec :: "string \<Rightarrow> error + bytes" where
  "example_codec s =
     (if s = ''alice'' then Inr [1] else if s = ''bob'' then Inr [2]
      else if s = ''carol'' then Inr [3]
      else Inl (Foreign ''decoding bech32 failed''))"

definition example_account :: Account where
  "example_account = \<lparr>addrCodec = example_codec, customAlgos = []\<rparr>"

definition empty_store :: Store where
  "empty_store = \<lparr>Members = Map.empty, Sequence = None, Config = None,
     Proposals = Map.empty, Votes = Map.empty\<rparr>"

definition voting_config :: "bool \<Rightarrow> v1_Config" where
  "voting_config revote =
     \<lparr>Threshold = 2, Quorum = 2, VotingPeriod = 3600, Algo = ''default'', Revote = revote\<rparr>"

definition bls_config :: v1_Config where
  "bls_config = \<lparr>Threshold = 2, Quorum = 2, VotingPeriod = 3600, Algo = ''bls'', Revote = False\<rparr>"

definition zero_quorum_config :: v1_Config where
  "zero_quorum_config =
     \<lparr>Threshold = 5, Quorum = 0, VotingPeriod = 1, Algo = ''default'', Revote = False\<rparr>"

definition example_proposal :: "ProposalStatus \<Rightarrow> v1_Proposal" where
  "example_proposal s = \<lparr>Id = 7, Payload = [], CreatedAt = 0, Status = s\<rparr>"

definition voting_store :: "v1_Config \<Rightarrow> ProposalStatus \<Rightarrow> Store" where
  "voting_store cfg s =
     \<lparr>Members = [[1] \<mapsto> 1, [2] \<mapsto> 1], Sequence = None, Config = Some cfg,
      Proposals = [7 \<mapsto> example_proposal s], Votes = Map.empty\<rparr>"

definition vote_msg :: "string \<Rightarrow> uint64 \<Rightarrow> bool \<Rightarrow> v1_MsgVote" where
  "vote_msg signer pid v = \<lparr>Signer = signer, ProposalId = pid, VoteVal = v, Signature = []\<rparr>"

definition init_msg :: "bytes list \<Rightarrow> uint64 list \<Rightarrow> v1_Config \<Rightarrow> v1_MsgInit" where
  "init_msg pks ws cfg = \<lparr>PubKeys = pks, Weights = ws, MsgConfig = Some cfg\<rparr>"

section \<open>Properties\<close>

subsection \<open>What Init iterates over\<close>

lemma search_customAlgos_fst:
  "fst (search_customAlgos algo ks acc) = (algo \<in> set ks)"
  by (induction ks arbitrary: acc) auto

text \<open>
  On lists of equal length the participants loop leaves, for every listed identity, the
  weight of its last occurrence, and every other entry as it was.
\<close>

lemma set_participants_eq:
  "length ks = length ws \<Longrightarrow> set_participants m ks ws = m ++ map_of (rev (zip ks ws))"
proof (induction ks ws arbitrary: m rule: list_induct2)
  case Nil
  then show ?case by simp
next
  case (Cons k ks w ws)
  have "set_participants m (k # ks) (w # ws) = set_participants (m(k \<mapsto> w)) ks ws"
    by (simp add: Map_Set_def)
  also have "\<dots> = (m(k \<mapsto> w)) ++ map_of (rev (zip ks ws))"
    by (rule Cons.IH)
  also have "\<dots> = m ++ map_of (rev (zip (k # ks) (w # ws)))"
    by (simp add: map_of_append map_add_upd_left)
  finally show ?case .
qed

lemma sum_weights_eq:
  "sum_weights acc ws = acc + word_of_nat (sum_list (map unat ws))"
  by (induction ws arbitrary: acc) (simp_all add: algebra_simps)

subsection \<open>The three ways through Init\<close>

lemma Init_length_mismatch:
  "length (PubKeys msg) \<noteq> length (Weights msg) \<Longrightarrow> Init a ctx msg = (Failed InvalidInput, ctx)"
  by (simp add: Init_def)

lemma Init_unsupported_algo:
  assumes "length (PubKeys msg) = length (Weights msg)"
    and "MsgConfig msg = Some cfg"
    and "\<not> (Algo cfg = DefaultSigningAlgo \<or> Algo cfg \<in> fst ` set (customAlgos a))"
  shows "\<exists>l. Init a ctx msg = (Failed (UnsupportedAlgorithm (Algo cfg) l), ctx)"
proof -
  obtain b l where s: "search_customAlgos (Algo cfg) (map fst (customAlgos a)) [DefaultSigningAlgo] = (b, l)"
    by (cases "search_customAlgos (Algo cfg) (map fst (customAlgos a)) [DefaultSigningAlgo]")
  have "\<not> b"
    using assms(3) search_customAlgos_fst [of "Algo cfg" "map fst (customAlgos a)" "[DefaultSigningAlgo]"] s
    by simp
  then show ?thesis
    using assms s by (simp add: Init_def)
qed

lemma Init_after_checks:
  assumes "length (PubKeys msg) = length (Weights msg)"
    and "MsgConfig msg = Some cfg"
    and "Algo cfg = DefaultSigningAlgo \<or> Algo cfg \<in> fst ` set (customAlgos a)"
  shows "Init a ctx msg =
     (case validateConfig cfg (sum_weights 0 (Weights msg)) of
        Some err \<Rightarrow> Failed err | None \<Rightarrow> Ok MsgInitResponse,
      ctx\<lparr>Members := set_participants (Members ctx) (PubKeys msg) (Weights msg)\<rparr>)"
proof -
  obtain b l where s: "search_customAlgos (Algo cfg) (map fst (customAlgos a)) [DefaultSigningAlgo] = (b, l)"
    by (cases "search_customAlgos (Algo cfg) (map fst (customAlgos a)) [DefaultSigningAlgo]")
  have "Algo cfg \<noteq> DefaultSigningAlgo \<Longrightarrow> b"
    using assms(3) search_customAlgos_fst [of "Algo cfg" "map fst (customAlgos a)" "[DefaultSigningAlgo]"] s
    by simp
  then show ?thesis
    using assms(1,2) s by (simp add: Init_def Let_def split: option.splits)
qed

subsection \<open>Vote by a member on an existing proposal\<close>

lemma Vote_member_proposal:
  assumes "Config ctx = Some cfg"
    and "voter_identity a cfg msg = Ok voterBz"
    and "Members ctx voterBz = Some w"
    and "Proposals ctx (ProposalId msg) = Some p"
  shows "Vote a ctx msg =
     (if Votes ctx (ProposalId msg, voterBz) \<noteq> None \<and> \<not> Revote cfg then (Failed AlreadyVoted, ctx)
      else (Ok MsgVoteResponse,
            ctx\<lparr>Votes := (Votes ctx)((ProposalId msg, voterBz) \<mapsto> VoteVal msg)\<rparr>))"
  using assms
  by (cases "Votes ctx (ProposalId msg, voterBz)")
     (simp_all add: Vote_def Item_Get_def Map_Get_def Map_Set_def)

text \<open>
  Under a stored configuration whose algorithm is not the default and has no entry in
  \<open>customAlgos\<close>, Vote panics on the nil handler, whatever the message and the rest of
  the store.
\<close>

lemma Vote_nil_handler:
  assumes "Config ctx = Some cfg"
    and "Algo cfg \<noteq> DefaultSigningAlgo"
    and "map_of (customAlgos a) (Algo cfg) = None"
  shows "Vote a ctx msg = (Panicked, ctx)"
  using assms by (simp add: Vote_def Item_Get_def voter_identity_def)

subsection \<open>The concrete account and store\<close>

lemma vote_msg_sel:
  "Signer (vote_msg s pid v) = s" "ProposalId (vote_msg s pid v) = pid"
  "VoteVal (vote_msg s pid v) = v" "Signature (vote_msg s pid v) = []"
  by (simp_all add: vote_msg_def)

lemma init_msg_sel:
  "PubKeys (init_msg pks ws cfg) = pks" "Weights (init_msg pks ws cfg) = ws"
  "MsgConfig (init_msg pks ws cfg) = Some cfg"
  by (simp_all add: init_msg_def)

lemma voting_config_default:
  "Algo (voting_config rv) = DefaultSigningAlgo"
  by (simp add: voting_config_def DefaultSigningAlgo_def)

lemma example_voter:
  "voter_identity example_account (voting_config rv) (vote_msg ''alice'' pid v) = Ok [1]"
  "voter_identity example_account (voting_config rv) (vote_msg ''bob'' pid v) = Ok [2]"
  "voter_identity example_account (voting_config rv) (vote_msg ''carol'' pid v) = Ok [3]"
  by (simp_all add: voter_identity_def voting_config_def DefaultSigningAlgo_def
      example_account_def example_codec_def vote_msg_def)

text \<open>The first vote of member \<open>[1]\<close> on the active proposal 7 is recorded.\<close>

lemma example_first_vote:
  "Vote example_account (voting_store (voting_config rv) Active) (vote_msg ''alice'' 7 True) =
     (Ok MsgVoteResponse, (voting_store (voting_config rv) Active)\<lparr>Votes := [(7, [1]) \<mapsto> True]\<rparr>)"
proof -
  have "Vote example_account (voting_store (voting_config rv) Active) (vote_msg ''alice'' 7 True) =
     (Ok MsgVoteResponse, (voting_store (voting_config rv) Active)
        \<lparr>Votes := (Votes (voting_store (voting_config rv) Active))
           ((ProposalId (vote_msg ''alice'' 7 True), [1]) \<mapsto> VoteVal (vote_msg ''alice'' 7 True))\<rparr>)"
    using Vote_member_proposal [of "voting_store (voting_config rv) Active" "voting_config rv"
        example_account "vote_msg ''alice'' 7 True" "[1]" 1 "example_proposal Active"]
    by (simp add: example_voter) (simp add: voting_store_def vote_msg_def)
  then show ?thesis by (simp add: voting_store_def vote_msg_def)
qed

subsection \<open>Init under a configuration that fails validation\<close>

text \<open>
  Init under a configuration that fails validateConfig against the total weight Init
  computes: Init returns an error. With lists of equal length and a supported algorithm
  the members were set before the validation, so the error is the validation error and
  the store Init was working on holds every listed identity, each with the weight of
  its last occurrence; Init itself removes nothing. In the other cases Init fails before
  its first write.
\<close>

lemma Init_invalid_config:
  assumes "MsgConfig msg = Some cfg"
    and "validateConfig cfg (sum_weights 0 (Weights msg)) = Some err"
  shows "(\<exists>e. fst (Init a ctx msg) = Failed e) \<and>
         (length (PubKeys msg) = length (Weights msg) \<and>
          (Algo cfg = DefaultSigningAlgo \<or> Algo cfg \<in> fst ` set (customAlgos a)) \<longrightarrow>
            Init a ctx msg =
              (Failed err,
               ctx\<lparr>Members := Members ctx ++ map_of (rev (zip (PubKeys msg) (Weights msg)))\<rparr>) \<and>
            (\<forall>k \<in> set (PubKeys msg). Members (snd (Init a ctx msg)) k \<noteq> None)) \<and>
         (\<not> (length (PubKeys msg) = length (Weights msg) \<and>
             (Algo cfg = DefaultSigningAlgo \<or> Algo cfg \<in> fst ` set (customAlgos a))) \<longrightarrow>
            snd (Init a ctx msg) = ctx)"
proof (cases "length (PubKeys msg) = length (Weights msg)")
  case False
  then show ?thesis by (simp add: Init_length_mismatch)
next
  case len: True
  show ?thesis
  proof (cases "Algo cfg = DefaultSigningAlgo \<or> Algo cfg \<in> fst ` set (customAlgos a)")
    case False
    then show ?thesis
      using Init_unsupported_algo [OF len assms(1) False, of ctx] len by auto
  next
    case True
    have i: "Init a ctx msg =
        (Failed err, ctx\<lparr>Members := Members ctx ++ map_of (rev (zip (PubKeys msg) (Weights msg)))\<rparr>)"
      using Init_after_checks [OF len assms(1) True, of ctx] assms(2) len
      by (simp add: set_participants_eq)
    have "Members ctx k \<noteq> None \<or> map_of (rev (zip (PubKeys msg) (Weights msg))) k \<noteq> None"
      if "k \<in> set (PubKeys msg)" for k
    proof -
      have "k \<in> fst ` set (rev (zip (PubKeys msg) (Weights msg)))"
        using that len by (simp add: map_fst_zip flip: set_map)
      then show ?thesis by (simp add: map_of_eq_None_iff)
    qed
    then show ?thesis using i True len by (auto simp: map_add_Some_iff)
  qed
qed

text \<open>
  One member of weight 1 under threshold 2: Init returns the threshold error and the
  member, absent before, is in the store Init was working on.
\<close>

lemma Init_invalid_config_example:
  "validateConfig (voting_config False) (sum_weights 0 [1]) = Some ThresholdExceedsWeight \<and>
   fst (Init example_account empty_store (init_msg [[1]] [1] (voting_config False)))
     = Failed ThresholdExceedsWeight \<and>
   Members empty_store [1] = None \<and>
   Members (snd (Init example_account empty_store (init_msg [[1]] [1] (voting_config False)))) [1]
     = Some 1"
  by (simp add: Init_def init_msg_def voting_config_def DefaultSigningAlgo_def validateConfig_def
      empty_store_def Map_Set_def)

text \<open>A call that does not return a response leaves the committed store as it was.\<close>

lemma host_call_not_Ok:
  "\<forall>resp. fst (handler committed msg) \<noteq> Ok resp \<Longrightarrow>
   host_call handler committed msg = (fst (handler committed msg), committed)"
  by (cases "handler committed msg"; cases "fst (handler committed msg)")
     (simp_all add: host_call_def)

section \<open>The claims\<close>

subsection \<open>Init\<close>

text \<open>
  Claim C1. For every Init input whose configuration fails validateConfig against the
  total weight Init computes (a zero threshold, quorum or voting-period, or a threshold
  or quorum above the total weight), the call returns an error and nothing of it is
  committed: the committed store is the one from before the call, and in particular
  every identity of the input has, in the Member Registry, exactly the entry it had
  before, although Init sets the members before it validates.
\<close>

theorem C1_Init_invalid_config:
  assumes "MsgConfig msg = Some cfg"
    and "validateConfig cfg (sum_weights 0 (Weights msg)) = Some err"
  shows "(\<exists>e. fst (host_call (Init a) committed msg) = Failed e) \<and>
         snd (host_call (Init a) committed msg) = committed \<and>
         (\<forall>k \<in> set (PubKeys msg).
            Members (snd (host_call (Init a) committed msg)) k = Members committed k)"
proof -
  obtain e where e: "fst (Init a committed msg) = Failed e"
    using Init_invalid_config [OF assms, of a committed] by blast
  then have "host_call (Init a) committed msg = (Failed e, committed)"
    by (simp add: host_call_not_Ok)
  then show ?thesis by simp
qed

text \<open>
  C1 for one member of weight 1 under threshold 2, from the empty store: the call fails
  with the threshold error; the member is in the store Init was working on and in no
  committed store.
\<close>

theorem C1_Init_invalid_config_witness:
  "validateConfig (voting_config False) (sum_weights 0 [1]) = Some ThresholdExceedsWeight \<and>
   Members (snd (Init example_account empty_store (init_msg [[1]] [1] (voting_config False)))) [1]
     = Some 1 \<and>
   (\<exists>e. fst (host_call (Init example_account) empty_store
           (init_msg [[1]] [1] (voting_config False))) = Failed e) \<and>
   snd (host_call (Init example_account) empty_store (init_msg [[1]] [1] (voting_config False)))
     = empty_store \<and>
   Members (snd (host_call (Init example_account) empty_store
     (init_msg [[1]] [1] (voting_config False)))) [1] = None"
proof -
  have v: "validateConfig (voting_config False) (sum_weights 0 [1]) = Some ThresholdExceedsWeight"
    by (simp add: validateConfig_def voting_config_def)
  have v1: "validateConfig (voting_config False)
      (sum_weights 0 (Weights (init_msg [[1]] [1] (voting_config False)))) = Some ThresholdExceedsWeight"
    using v by (simp add: init_msg_sel)
  have n: "Members empty_store [1] = None"
    by (simp add: empty_store_def)
  show ?thesis
    using C1_Init_invalid_config [OF init_msg_sel(3) v1, of example_account empty_store]
      v n Init_invalid_config_example
    by (simp add: init_msg_sel)
qed

text \<open>
  Claim C7. Once the length and algorithm checks have passed, Init answers with what
  validateConfig says of the sum of the input weights list modulo \<open>2 ^ 64\<close>, while the
  Member Registry holds, for each listed identity, only the weight of its last
  occurrence: a repeated identity counts once per occurrence in the total, and a list
  whose sum passes \<open>2 ^ 64 - 1\<close> is validated against the wrapped sum.
\<close>

theorem C7_Init_total_weight:
  assumes "length (PubKeys msg) = length (Weights msg)"
    and "MsgConfig msg = Some cfg"
    and "Algo cfg = DefaultSigningAlgo \<or> Algo cfg \<in> fst ` set (customAlgos a)"
  shows "fst (Init a ctx msg) =
           (case validateConfig cfg (word_of_nat (sum_list (map unat (Weights msg)))) of
              Some err \<Rightarrow> Failed err | None \<Rightarrow> Ok MsgInitResponse) \<and>
         unat (word_of_nat (sum_list (map unat (Weights msg))) :: uint64) =
           sum_list (map unat (Weights msg)) mod 2 ^ 64 \<and>
         Members (snd (Init a ctx msg)) =
           Members ctx ++ map_of (rev (zip (PubKeys msg) (Weights msg)))"
proof -
  have "unat (word_of_nat (sum_list (map unat (Weights msg))) :: uint64) =
      sum_list (map unat (Weights msg)) mod 2 ^ 64"
    by (simp add: unat_of_nat)
  then show ?thesis
    using Init_after_checks [OF assms, of ctx] assms(1)
    by (simp add: sum_weights_eq set_participants_eq)
qed

text \<open>
  C7 at two inputs under threshold 2 and quorum 2. Identity \<open>[1]\<close> listed twice with
  weight 1: Init succeeds on total 2 although the registry holds the one entry of weight
  1. Weights \<open>2 ^ 64 - 1\<close> and 2: the total wraps to 1 and Init fails on the threshold.
\<close>

theorem C7_Init_total_weight_witness:
  "fst (Init example_account empty_store (init_msg [[1], [1]] [1, 1] (voting_config False)))
     = Ok MsgInitResponse \<and>
   Members (snd (Init example_account empty_store (init_msg [[1], [1]] [1, 1] (voting_config False))))
     = Members empty_store ++ map_of [([1], 1), ([1], 1)] \<and>
   fst (Init example_account empty_store
     (init_msg [[1], [2]] [18446744073709551615, 2] (voting_config False)))
     = Failed ThresholdExceedsWeight"
proof -
  have l: "length (PubKeys (init_msg [[1], [1]] [1, 1] (voting_config False))) =
      length (Weights (init_msg [[1], [1]] [1, 1] (voting_config False)))"
    "length (PubKeys (init_msg [[1], [2]] [18446744073709551615, 2] (voting_config False))) =
      length (Weights (init_msg [[1], [2]] [18446744073709551615, 2] (voting_config False)))"
    by (simp_all add: init_msg_sel)
  have d: "Algo (voting_config False) = DefaultSigningAlgo \<or>
      Algo (voting_config False) \<in> fst ` set (customAlgos example_account)"
    by (simp add: voting_config_default)
  show ?thesis
    using C7_Init_total_weight [OF l(1) init_msg_sel(3) d, of empty_store]
      C7_Init_total_weight [OF l(2) init_msg_sel(3) d, of empty_store]
    by (simp add: init_msg_sel validateConfig_def voting_config_def)
qed

text \<open>
  Claim C10. For every Init input whose identities list and weights list differ in
  length, Init fails with InvalidInput and the store is as it was.
\<close>

theorem C10_Init_length_mismatch:
  "length (PubKeys msg) \<noteq> length (Weights msg) \<Longrightarrow>
   fst (Init a ctx msg) = Failed InvalidInput \<and> snd (Init a ctx msg) = ctx"
  by (simp add: Init_def)

theorem C10_Init_length_mismatch_witness:
  "length (PubKeys (init_msg [[1], [2]] [1] (voting_config False)))
     \<noteq> length (Weights (init_msg [[1], [2]] [1] (voting_config False))) \<and>
   fst (Init example_account empty_store (init_msg [[1], [2]] [1] (voting_config False)))
     = Failed InvalidInput \<and>
   snd (Init example_account empty_store (init_msg [[1], [2]] [1] (voting_config False)))
     = empty_store"
  using C10_Init_length_mismatch
    [of "init_msg [[1], [2]] [1] (voting_config False)" example_account empty_store]
  by (simp add: init_msg_def)

subsection \<open>validateConfig\<close>

text \<open>
  Claim C6, as the code has it. validateConfig checks in this order, the values read as
  unsigned 64-bit integers: it fails with InvalidConfig if threshold, quorum or
  voting-period is zero; otherwise with ThresholdExceedsWeight if threshold exceeds the
  total weight; otherwise with QuorumExceedsWeight if quorum exceeds the total weight;
  and succeeds otherwise.
\<close>

theorem C6_validateConfig_order:
  "(Threshold cfg = 0 \<or> Quorum cfg = 0 \<or> VotingPeriod cfg = 0 \<longrightarrow>
      validateConfig cfg tw = Some InvalidConfig) \<and>
   (Threshold cfg \<noteq> 0 \<and> Quorum cfg \<noteq> 0 \<and> VotingPeriod cfg \<noteq> 0 \<and>
    unat tw < unat (Threshold cfg) \<longrightarrow>
      validateConfig cfg tw = Some ThresholdExceedsWeight) \<and>
   (Threshold cfg \<noteq> 0 \<and> Quorum cfg \<noteq> 0 \<and> VotingPeriod cfg \<noteq> 0 \<and>
    unat (Threshold cfg) \<le> unat tw \<and> unat tw < unat (Quorum cfg) \<longrightarrow>
      validateConfig cfg tw = Some QuorumExceedsWeight) \<and>
   (Threshold cfg \<noteq> 0 \<and> Quorum cfg \<noteq> 0 \<and> VotingPeriod cfg \<noteq> 0 \<and>
    unat (Threshold cfg) \<le> unat tw \<and> unat (Quorum cfg) \<le> unat tw \<longrightarrow>
      validateConfig cfg tw = None)"
  by (auto simp: validateConfig_def word_less_nat_alt)

theorem C6_validateConfig_order_witness:
  "validateConfig zero_quorum_config 3 = Some InvalidConfig \<and>
   validateConfig (voting_config False) 1 = Some ThresholdExceedsWeight \<and>
   validateConfig ((voting_config False)\<lparr>Quorum := 4\<rparr>) 3 = Some QuorumExceedsWeight \<and>
   validateConfig (voting_config False) 3 = None"
  using C6_validateConfig_order [of zero_quorum_config 3]
    C6_validateConfig_order [of "voting_config False" 1]
    C6_validateConfig_order [of "(voting_config False)\<lparr>Quorum := 4\<rparr>" 3]
    C6_validateConfig_order [of "voting_config False" 3]
  by (simp add: zero_quorum_config_def voting_config_def)

text \<open>
  The claim as written fails: threshold 5 exceeds the total weight 3, yet with quorum 0
  the error is InvalidConfig, not ThresholdExceedsWeight.
\<close>

theorem C6_counterexample:
  "unat (3 :: uint64) < unat (Threshold zero_quorum_config) \<and>
   validateConfig zero_quorum_config 3 = Some InvalidConfig \<and>
   validateConfig zero_quorum_config 3 \<noteq> Some ThresholdExceedsWeight"
  by (simp add: validateConfig_def zero_quorum_config_def)

subsection \<open>Vote\<close>

text \<open>
  Claim C2 fails on the code. Under a stored configuration with algorithm "bls" and an
  account with no handler registered under that name, Vote does not return an error: the
  call of RecoverPubKey on the absent map entry panics.
\<close>

theorem C2_Vote_missing_handler_panics:
  "Config (voting_store bls_config Active) = Some bls_config \<and>
   Algo bls_config \<noteq> DefaultSigningAlgo \<and>
   map_of (customAlgos example_account) (Algo bls_config) = None \<and>
   fst (Vote example_account (voting_store bls_config Active) (vote_msg ''alice'' 7 True)) = Panicked"
  by (simp add: voting_store_def bls_config_def DefaultSigningAlgo_def example_account_def
      Vote_def Item_Get_def voter_identity_def)

text \<open>
  Claim C3, as the code has it. Vote never looks at the status of the proposal it finds.
  For a member voting on an existing proposal in a terminal state (Passed, Rejected or
  Expired) there is no ProposalClosed: Vote fails with AlreadyVoted, recording nothing,
  when the member has a stored vote on the proposal and revote is false, and otherwise
  succeeds and records the vote.
\<close>

theorem C3_Vote_ignores_status:
  assumes "Config ctx = Some cfg"
    and "voter_identity a cfg msg = Ok voterBz"
    and "Members ctx voterBz = Some w"
    and "Proposals ctx (ProposalId msg) = Some p"
    and "Status p \<in> {Passed, Rejected, Expired}"
  shows "Vote a ctx msg =
     (if Votes ctx (ProposalId msg, voterBz) \<noteq> None \<and> \<not> Revote cfg then (Failed AlreadyVoted, ctx)
      else (Ok MsgVoteResponse,
            ctx\<lparr>Votes := (Votes ctx)((ProposalId msg, voterBz) \<mapsto> VoteVal msg)\<rparr>))"
  using assms(1-4) by (rule Vote_member_proposal)

theorem C3_Vote_ignores_status_witness:
  "Status (example_proposal Expired) \<in> {Passed, Rejected, Expired} \<and>
   Vote example_account (voting_store (voting_config False) Expired) (vote_msg ''bob'' 7 False) =
     (Ok MsgVoteResponse,
      (voting_store (voting_config False) Expired)\<lparr>Votes := [(7, [2]) \<mapsto> False]\<rparr>)"
proof -
  have c: "Config (voting_store (voting_config False) Expired) = Some (voting_config False)"
    by (simp add: voting_store_def)
  have m: "Members (voting_store (voting_config False) Expired) [2] = Some 1"
    by (simp add: voting_store_def)
  have p: "Proposals (voting_store (voting_config False) Expired)
      (ProposalId (vote_msg ''bob'' 7 False)) = Some (example_proposal Expired)"
    by (simp add: voting_store_def vote_msg_def)
  have s: "Status (example_proposal Expired) \<in> {Passed, Rejected, Expired}"
    by (simp add: example_proposal_def)
  show ?thesis
    using C3_Vote_ignores_status [OF c example_voter(2) m p s] s
    by (simp add: vote_msg_def voting_store_def)
qed

text \<open>
  The claim as written fails: member \<open>[1]\<close> votes on proposal 7, which is Passed, and
  the vote succeeds and is recorded.
\<close>

theorem C3_counterexample:
  "Status (example_proposal Passed) = Passed \<and>
   Proposals (voting_store (voting_config False) Passed) 7 = Some (example_proposal Passed) \<and>
   Members (voting_store (voting_config False) Passed) [1] = Some 1 \<and>
   fst (Vote example_account (voting_store (voting_config False) Passed) (vote_msg ''alice'' 7 True))
     = Ok MsgVoteResponse \<and>
   Votes (snd (Vote example_account (voting_store (voting_config False) Passed)
     (vote_msg ''alice'' 7 True))) (7, [1]) = Some True"
  by (simp add: voting_store_def voting_config_def DefaultSigningAlgo_def example_account_def
      example_codec_def example_proposal_def vote_msg_def
      Vote_def Item_Get_def Map_Get_def Map_Set_def voter_identity_def)

text \<open>
  Claim C5. A member with a stored vote on an existing proposal votes again: with revote
  false the call fails with AlreadyVoted and the stored vote is the old one; with revote
  true the call succeeds and the stored vote is the new value.
\<close>

theorem C5_Vote_second_vote:
  assumes "Config ctx = Some cfg"
    and "voter_identity a cfg msg = Ok voterBz"
    and "Members ctx voterBz = Some w"
    and "Proposals ctx (ProposalId msg) = Some p"
    and "Votes ctx (ProposalId msg, voterBz) = Some old"
  shows "(\<not> Revote cfg \<longrightarrow>
            fst (Vote a ctx msg) = Failed AlreadyVoted \<and>
            Votes (snd (Vote a ctx msg)) (ProposalId msg, voterBz) = Some old) \<and>
         (Revote cfg \<longrightarrow>
            fst (Vote a ctx msg) = Ok MsgVoteResponse \<and>
            Votes (snd (Vote a ctx msg)) (ProposalId msg, voterBz) = Some (VoteVal msg))"
  using assms Vote_member_proposal [OF assms(1-4)] by simp

text \<open>
  C5 on the store left by the first, approving vote of member \<open>[1]\<close> on proposal 7: the
  rejecting second vote fails and leaves the approval under revote false, and replaces it
  under revote true.
\<close>

theorem C5_Vote_second_vote_witness:
  "fst (Vote example_account
          (snd (Vote example_account (voting_store (voting_config False) Active)
                  (vote_msg ''alice'' 7 True)))
          (vote_msg ''alice'' 7 False)) = Failed AlreadyVoted \<and>
   Votes (snd (Vote example_account
          (snd (Vote example_account (voting_store (voting_config False) Active)
                  (vote_msg ''alice'' 7 True)))
          (vote_msg ''alice'' 7 False))) (7, [1]) = Some True \<and>
   fst (Vote example_account
          (snd (Vote example_account (voting_store (voting_config True) Active)
                  (vote_msg ''alice'' 7 True)))
          (vote_msg ''alice'' 7 False)) = Ok MsgVoteResponse \<and>
   Votes (snd (Vote example_account
          (snd (Vote example_account (voting_store (voting_config True) Active)
                  (vote_msg ''alice'' 7 True)))
          (vote_msg ''alice'' 7 False))) (7, [1]) = Some False"
proof -
  let ?st = "\<lambda>rv. (voting_store (voting_config rv) Active)\<lparr>Votes := [(7, [1]) \<mapsto> True]\<rparr>"
  have c: "Config (?st rv) = Some (voting_config rv)" for rv
    by (simp add: voting_store_def)
  have m: "Members (?st rv) [1] = Some 1" for rv
    by (simp add: voting_store_def)
  have p: "Proposals (?st rv) (ProposalId (vote_msg ''alice'' 7 False)) = Some (example_proposal Active)" for rv
    by (simp add: voting_store_def vote_msg_def)
  have v: "Votes (?st rv) (ProposalId (vote_msg ''alice'' 7 False), [1]) = Some True" for rv
    by (simp add: voting_store_def vote_msg_def)
  have r: "\<not> Revote (voting_config False)" "Revote (voting_config True)"
    by (simp_all add: voting_config_def)
  show ?thesis
    using C5_Vote_second_vote [OF c example_voter(1) m p v, of False]
      C5_Vote_second_vote [OF c example_voter(1) m p v, of True] r
    by (simp add: example_first_vote vote_msg_sel)
qed

text \<open>
  Claim C8. When the resolved voter identity has no entry in the Member Registry, Vote
  fails with the not-found error of the member lookup (NotAMember) and changes nothing,
  whether or not the proposal exists: the member lookup comes before the proposal lookup.
\<close>

theorem C8_Vote_not_a_member:
  assumes "Config ctx = Some cfg"
    and "voter_identity a cfg msg = Ok voterBz"
    and "Members ctx voterBz = None"
  shows "Vote a ctx msg = (Failed (ErrNotFound MembersColl), ctx)"
  using assms by (simp add: Vote_def Item_Get_def Map_Get_def)

text \<open>C8 for a non-member, on the existing proposal 7 and on the absent proposal 9.\<close>

theorem C8_Vote_not_a_member_witness:
  "Members (voting_store (voting_config False) Active) [3] = None \<and>
   Proposals (voting_store (voting_config False) Active) 7 \<noteq> None \<and>
   Vote example_account (voting_store (voting_config False) Active) (vote_msg ''carol'' 7 True)
     = (Failed (ErrNotFound MembersColl), voting_store (voting_config False) Active) \<and>
   Proposals (voting_store (voting_config False) Active) 9 = None \<and>
   Vote example_account (voting_store (voting_config False) Active) (vote_msg ''carol'' 9 True)
     = (Failed (ErrNotFound MembersColl), voting_store (voting_config False) Active)"
proof -
  have c: "Config (voting_store (voting_config False) Active) = Some (voting_config False)"
    by (simp add: voting_store_def)
  have m: "Members (voting_store (voting_config False) Active) [3] = None"
    by (simp add: voting_store_def)
  have p: "Proposals (voting_store (voting_config False) Active) 7 \<noteq> None"
    "Proposals (voting_store (voting_config False) Active) 9 = None"
    by (simp_all add: voting_store_def)
  show ?thesis
    using C8_Vote_not_a_member [OF c example_voter(3) m, of 7 True]
      C8_Vote_not_a_member [OF c example_voter(3) m, of 9 True] m p
    by simp
qed

text \<open>
  Claim C9. When a current member votes on a proposal id with no entry in the Proposal
  Ledger, Vote fails with the not-found error of the proposal lookup (ProposalNotFound)
  and the store, the Vote Ledger included, is as it was.
\<close>

theorem C9_Vote_proposal_not_found:
  assumes "Config ctx = Some cfg"
    and "voter_identity a cfg msg = Ok voterBz"
    and "Members ctx voterBz = Some w"
    and "Proposals ctx (ProposalId msg) = None"
  shows "Vote a ctx msg = (Failed (ErrNotFound ProposalsColl), ctx)"
  using assms by (simp add: Vote_def Item_Get_def Map_Get_def)

theorem C9_Vote_proposal_not_found_witness:
  "Members (voting_store (voting_config False) Active) [1] = Some 1 \<and>
   Proposals (voting_store (voting_config False) Active) 9 = None \<and>
   Vote example_account (voting_store (voting_config False) Active) (vote_msg ''alice'' 9 True)
     = (Failed (ErrNotFound ProposalsColl), voting_store (voting_config False) Active)"
proof -
  have c: "Config (voting_store (voting_config False) Active) = Some (voting_config False)"
    by (simp add: voting_store_def)
  have m: "Members (voting_store (voting_config False) Active) [1] = Some 1"
    by (simp add: voting_store_def)
  have p: "Proposals (voting_store (voting_config False) Active)
      (ProposalId (vote_msg ''alice'' 9 True)) = None"
    by (simp add: voting_store_def vote_msg_def)
  show ?thesis
    using C9_Vote_proposal_not_found [OF c example_voter(1) m p] m p
    by (simp add: vote_msg_def)
qed

subsection \<open>Authenticate\<close>

text \<open>
  Claim C4. Authenticate succeeds on every message and every state: it returns the
  response with a nil error, reads nothing of the message, and leaves the store as it
  was.
\<close>

theorem C4_Authenticate_unconditional:
  "Authenticate a ctx msg = (Ok MsgAuthenticateResponse, ctx)"
  by (simp add: Authenticate_def)

end
